theory Spec2Isabelle
  imports Complex_Main "HOL-Library.Char_ord" "HOL-Library.List_Lexorder"
begin

section \<open>Python values shared by the modules\<close>

text \<open>
  The scripts exchange JSON documents. A document is a value of \<open>json\<close>; a Python
  \<open>dict\<close> loaded from JSON is an association list in insertion order whose keys are
  distinct strings. Numbers are integers (no script under verification computes with the
  fractional part of a number stored in a document).
\<close>

datatype json =
    JNull
  | JBool bool
  | JNum int
  | JStr string
  | JArr "json list"
  | JObj "(string \<times> json) list"

type_synonym dict = "(string \<times> json) list"

datatype py_error = TypeError | AttributeError | KeyError

text \<open>Python truthiness (\<open>bool(v)\<close>, \<open>if v\<close>, \<open>a or b\<close>).\<close>

fun truthy :: "json \<Rightarrow> bool" where
  "truthy JNull = False"
| "truthy (JBool b) = b"
| "truthy (JNum n) = (n \<noteq> 0)"
| "truthy (JStr s) = (s \<noteq> [])"
| "truthy (JArr xs) = (xs \<noteq> [])"
| "truthy (JObj kvs) = (kvs \<noteq> [])"

text \<open>\<open>d.get(k)\<close> with the default \<open>None\<close>, and \<open>d.get(k, default)\<close>.\<close>

definition dget :: "dict \<Rightarrow> string \<Rightarrow> json" where
  "dget d k = (case map_of d k of None \<Rightarrow> JNull | Some v \<Rightarrow> v)"

definition dget_default :: "dict \<Rightarrow> string \<Rightarrow> json \<Rightarrow> json" where
  "dget_default d k dflt = (case map_of d k of None \<Rightarrow> dflt | Some v \<Rightarrow> v)"

text \<open>\<open>a or b\<close>: the first operand when it is truthy, else the second.\<close>

definition py_or :: "json \<Rightarrow> json \<Rightarrow> json" where
  "py_or a b = (if truthy a then a else b)"

text \<open>
  Substring test \<open>sub in s\<close>, \<open>s.startswith(p)\<close> and the slice \<open>s[-n:]\<close> (the last
  \<open>n\<close> items, or all of \<open>s\<close> when it is shorter).
\<close>

fun starts_with :: "'a list \<Rightarrow> 'a list \<Rightarrow> bool" where
  "starts_with s [] = True"
| "starts_with [] (p # ps) = False"
| "starts_with (x # xs) (p # ps) = (x = p \<and> starts_with xs ps)"

fun contains :: "'a list \<Rightarrow> 'a list \<Rightarrow> bool" where
  "contains [] sub = (sub = [])"
| "contains (x # xs) sub = (starts_with (x # xs) sub \<or> contains xs sub)"

definition last_n :: "nat \<Rightarrow> 'a list \<Rightarrow> 'a list" where
  "last_n n s = drop (length s - n) s"

section \<open>dashboard\_data.py: agent status detection and the nudge decision\<close>

text \<open>
  Pane output is a Python \<open>str\<close>: a list of Unicode code points, so that the slices
  count what Python counts. \<open>u\<close> gives the code points of an ASCII literal.
\<close>

type_synonym ustr = "nat list"

definition u :: "string \<Rightarrow> ustr" where
  "u s = map of_char s"

text \<open>\<open>str.isspace\<close> for one code point; \<open>\s\<close> of the \<open>re\<close> module and \<open>str.strip\<close> use it.\<close>

definition is_space :: "nat \<Rightarrow> bool" where
  "is_space c \<longleftrightarrow> (9 \<le> c \<and> c \<le> 13) \<or> (28 \<le> c \<and> c \<le> 32) \<or> c = 133 \<or> c = 160
     \<or> c = 5760 \<or> (8192 \<le> c \<and> c \<le> 8202) \<or> c = 8232 \<or> c = 8233 \<or> c = 8239
     \<or> c = 8287 \<or> c = 12288"

definition strip :: "ustr \<Rightarrow> ustr" where
  "strip s = rev (dropWhile is_space (rev (dropWhile is_space s)))"

text \<open>
  The match of \<open>\s*(.+?)(?:\n|$)\<close> right after an occurrence of \<open>TASK_BLOCKED:\<close>,
  returning group 1. The greedy \<open>\s*\<close> takes all the white space; when a character
  follows, the group runs from it to the next newline or the end. When only white space
  follows, the engine backtracks to the last white-space character that is not a newline,
  which alone is the group; when there is none the match fails here.
\<close>

definition match_blocked_tail :: "ustr \<Rightarrow> ustr option" where
  "match_blocked_tail rest =
     (let ws = takeWhile is_space rest; rem = dropWhile is_space rest
      in if rem \<noteq> [] then Some (takeWhile (\<lambda>c. c \<noteq> 10) rem)
         else (case dropWhile (\<lambda>c. c = 10) (rev ws) of
                 [] \<Rightarrow> None
               | c # _ \<Rightarrow> Some [c]))"

text \<open>\<open>re.search(r"TASK_BLOCKED:\s*(.+?)(?:\n|$)", s)\<close>: the leftmost match, group 1.\<close>

fun search_blocked :: "ustr \<Rightarrow> ustr option" where
  "search_blocked [] = None"
| "search_blocked (c # cs) =
     (if starts_with (c # cs) (u ''TASK_BLOCKED:'')
      then (case match_blocked_tail (drop 13 (c # cs)) of
              Some g \<Rightarrow> Some g
            | None \<Rightarrow> search_blocked cs)
      else search_blocked cs)"

text \<open>The first pattern of a list found in a text, with its detail.\<close>

fun first_match :: "(ustr \<times> string) list \<Rightarrow> ustr \<Rightarrow> string option" where
  "first_match [] s = None"
| "first_match ((p, d) # ps) s = (if contains s p then Some d else first_match ps s)"

definition human_patterns :: "(ustr \<times> string) list" where
  "human_patterns =
     [(u ''1.'', ''choose option''),
      (u ''2.'', ''choose option''),
      (u ''(y/n)'', ''confirm''),
      (u ''[y/N]'', ''confirm''),
      (u ''[Y/n]'', ''confirm''),
      (u ''Which'', ''question''),
      (u ''What would you like'', ''question''),
      (u ''Please select'', ''choose''),
      (u ''Choose'', ''choose''),
      (u ''Enter your'', ''input needed''),
      (u ''Type your'', ''input needed''),
      (u ''?'', ''question'')]"

definition orchestrator_patterns :: "(ustr \<times> string) list" where
  "orchestrator_patterns =
     [(u ''waiting for task'', ''next task''),
      (u ''waiting for assignment'', ''assignment''),
      (u ''ready for next'', ''next task''),
      (u ''what should i'', ''direction''),
      (u ''awaiting instructions'', ''instructions''),
      (u ''TASK_NEEDS_CLARIFICATION'', ''clarification'')]"

definition sleep_patterns :: "(ustr \<times> string) list" where
  "sleep_patterns =
     [(u ''sleeping'', ''polling''),
      (u ''waiting for'', ''waiting''),
      (u ''polling'', ''polling''),
      (u ''watching'', ''monitoring''),
      (u ''monitoring'', ''monitoring'')]"

text \<open>The spinner glyphs are U+273B, U+280B, U+2819, U+2839 and U+2838.\<close>

definition busy_patterns :: "ustr list" where
  "busy_patterns =
     [u ''esc to interrupt'',
      u ''press esc to interrupt'',
      [10043], [10251], [10265], [10297], [10296],
      u ''Thinking...'',
      u ''Running:'']"

definition completion_signals :: "ustr list" where
  "completion_signals = [u ''task_complete'', u ''task complete'', u ''taskcomplete'']"

text \<open>
  \<open>detect_agent_status(pane_output)\<close>. \<open>str.lower\<close> is a table of the Python runtime;
  it is the parameter \<open>lower\<close>. The result is the pair (status, detail); the detail of a
  blocked agent is a piece of the pane output, so details are code-point strings.
\<close>

definition detect_agent_status :: "(ustr \<Rightarrow> ustr) \<Rightarrow> ustr \<Rightarrow> string \<times> ustr" where
  "detect_agent_status lower pane_output =
     (if pane_output = [] then (''unknown'', [])
      else
        let lower_output = lower pane_output;
            recent = last_n 800 pane_output;
            recent_lower = lower recent
        in if list_ex (\<lambda>signal. contains recent_lower signal) completion_signals
           then (''completed'', u ''completed'')
           else if contains recent (u ''TASK_BLOCKED'')
           then (''needs_agent'',
                 (case search_blocked recent of
                    Some g \<Rightarrow> take 30 (strip g)
                  | None \<Rightarrow> u ''blocked''))
           else (case first_match human_patterns (last_n 200 recent) of
                   Some detail \<Rightarrow> (''needs_human'', u detail)
                 | None \<Rightarrow>
             (case first_match (map (\<lambda>(p, d). (lower p, d)) orchestrator_patterns) lower_output of
                   Some detail \<Rightarrow> (''needs_orchestrator'', u detail)
                 | None \<Rightarrow>
             (case first_match (map (\<lambda>(p, d). (lower p, d)) sleep_patterns)
                     (last_n 300 lower_output) of
                   Some detail \<Rightarrow> (''sleeping'', u detail)
                 | None \<Rightarrow>
                   if contains lower_output (u ''inbox'') \<or> contains lower_output (u ''status watcher'')
                   then (''sleeping'', u ''daemon'')
                   else if list_ex (\<lambda>p. contains lower_output (lower p)) busy_patterns
                   then (''working'', [])
                   else if contains (last_n 100 recent) [10095]
                   then (''needs_orchestrator'', u ''idle'')
                   else (''needs_input'', [])))))"

text \<open>The lower-casing of ASCII letters, an instance of \<open>lower\<close> on ASCII text.\<close>

definition ascii_lower :: "ustr \<Rightarrow> ustr" where
  "ascii_lower s = map (\<lambda>c. if 65 \<le> c \<and> c \<le> 90 then c + 32 else c) s"

subsection \<open>The nudge decision\<close>

text \<open>
  Equality of two hashable Python values as a \<open>dict\<close> compares its keys: \<open>True\<close> and
  \<open>False\<close> are the integers 1 and 0.
\<close>

fun hashable :: "json \<Rightarrow> bool" where
  "hashable (JArr xs) = False"
| "hashable (JObj kvs) = False"
| "hashable v = True"

fun key_eq :: "json \<Rightarrow> json \<Rightarrow> bool" where
  "key_eq (JBool b) (JNum n) = (n = (if b then 1 else 0))"
| "key_eq (JNum n) (JBool b) = (n = (if b then 1 else 0))"
| "key_eq a b = (a = b)"

text \<open>
  \<open>{t.get("id"): t.get("status") for t in all_tasks}\<close>: a later task with an equal id
  replaces the status of an earlier one; an unhashable id raises \<open>TypeError\<close>.
\<close>

fun task_statuses :: "dict list \<Rightarrow> (json \<times> json) list \<Rightarrow> py_error + (json \<times> json) list" where
  "task_statuses [] acc = Inr acc"
| "task_statuses (t # ts) acc =
     (let k = dget t ''id''
      in if \<not> hashable k then Inl TypeError
         else task_statuses ts ((k, dget t ''status'') # filter (\<lambda>(k', v). \<not> key_eq k' k) acc))"

fun statuses_get :: "(json \<times> json) list \<Rightarrow> json \<Rightarrow> json" where
  "statuses_get [] b = JNull"
| "statuses_get ((k, v) # kvs) b = (if key_eq k b then v else statuses_get kvs b)"

text \<open>
  \<open>all(task_statuses.get(b) == "completed" for b in blocked_by)\<close> over the items of the
  iteration, stopping at the first false one; an unhashable item raises \<open>TypeError\<close>.
\<close>

fun all_completed :: "(json \<times> json) list \<Rightarrow> json list \<Rightarrow> py_error + bool" where
  "all_completed st [] = Inr True"
| "all_completed st (b # bs) =
     (if \<not> hashable b then Inl TypeError
      else if statuses_get st b = JStr ''completed'' then all_completed st bs
      else Inr False)"

text \<open>
  The items a \<open>for\<close> loop sees in a truthy value: the elements of a list, the
  one-character strings of a string, the keys of a dict; a number or \<open>True\<close> is not
  iterable.
\<close>

fun py_iter :: "json \<Rightarrow> py_error + json list" where
  "py_iter (JArr xs) = Inr xs"
| "py_iter (JStr s) = Inr (map (\<lambda>c. JStr [c]) s)"
| "py_iter (JObj kvs) = Inr (map (\<lambda>(k, v). JStr k) kvs)"
| "py_iter v = Inl TypeError"

definition is_task_ready :: "dict \<Rightarrow> dict list \<Rightarrow> py_error + bool" where
  "is_task_ready task all_tasks =
     (if dget task ''status'' \<notin> {JStr ''open'', JStr ''pending''} then Inr False
      else
        let blocked_by = py_or (py_or (py_or (dget task ''blocked_by'') (dget task ''blockedBy''))
                                  (dget task ''depends_on'')) (JArr [])
        in if \<not> truthy blocked_by then Inr True
           else (case task_statuses all_tasks [] of
                   Inl e \<Rightarrow> Inl e
                 | Inr st \<Rightarrow>
                     (case py_iter blocked_by of
                        Inl e \<Rightarrow> Inl e
                      | Inr bs \<Rightarrow> all_completed st bs)))"

text \<open>
  \<open>[t for t in tasks if is_task_ready(t, tasks) and not t.get("owner")]\<close>: the
  comprehension visits every task, so an exception in any of them propagates.
\<close>

fun ready_tasks :: "dict list \<Rightarrow> dict list \<Rightarrow> py_error + dict list" where
  "ready_tasks [] all_tasks = Inr []"
| "ready_tasks (t # ts) all_tasks =
     (case is_task_ready t all_tasks of
        Inl e \<Rightarrow> Inl e
      | Inr r \<Rightarrow>
          (case ready_tasks ts all_tasks of
             Inl e \<Rightarrow> Inl e
           | Inr rest \<Rightarrow> Inr (if r \<and> \<not> truthy (dget t ''owner'') then t # rest else rest)))"

text \<open>
  \<open>should_nudge\<close>. Times and intervals are Python floats: IEEE subtraction and
  comparison, with their rounding, infinities and NaN, are the parameters \<open>fsub\<close> and
  \<open>flt\<close> of the model (\<open>a > b\<close> is \<open>flt b a\<close>). The result is \<open>Inr\<close> of the
  returned boolean, or \<open>Inl\<close> of the exception raised.
\<close>

definition should_nudge ::
  "('f \<Rightarrow> 'f \<Rightarrow> 'f) \<Rightarrow> ('f \<Rightarrow> 'f \<Rightarrow> bool)
     \<Rightarrow> 'f \<Rightarrow> 'f \<Rightarrow> 'f \<Rightarrow> 'f \<Rightarrow> int \<Rightarrow> 'f \<Rightarrow> dict list \<Rightarrow> dict list \<Rightarrow> string
     \<Rightarrow> py_error + bool" where
  "should_nudge fsub flt idle_time nudge_interval last_nudge_time nudge_cooldown nudge_count now
       agents tasks orchestrator_status =
     (if orchestrator_status = ''waiting_for_human'' then Inr False
      else
        let cooldown_elapsed = flt nudge_cooldown (fsub now last_nudge_time)
        in if flt idle_time nudge_interval then Inr False
           else if \<not> cooldown_elapsed then Inr False
           else
             let needs_input = filter (\<lambda>a. dget a ''status'' = JStr ''needs_input'') agents
             in (case ready_tasks tasks tasks of
                   Inl e \<Rightarrow> Inl e
                 | Inr ready \<Rightarrow> Inr (needs_input \<noteq> [] \<or> ready \<noteq> [])))"

text \<open>
  \<open>detect_human_input_prompt\<close>, which \<open>get_orchestrator_status\<close> consults for the
  status \<open>waiting_for_human\<close>. The prompt glyph is U+276F.
\<close>

fun split_lines :: "ustr \<Rightarrow> ustr list" where
  "split_lines [] = [[]]"
| "split_lines (c # cs) =
     (if c = 10 then [] # split_lines cs
      else (case split_lines cs of
              [] \<Rightarrow> [[c]]
            | w # ws \<Rightarrow> (c # w) # ws))"

definition ends_with :: "'a list \<Rightarrow> 'a list \<Rightarrow> bool" where
  "ends_with s p = starts_with (rev s) (rev p)"

definition explicit_prompts :: "ustr list" where
  "explicit_prompts =
     [u ''What would you like'', u ''Please select'', u ''Choose an option'', u ''Enter your'',
      u ''Type your'', u ''(y/n)'', u ''[y/N]'', u ''[Y/n]'', u ''Press Enter'', u ''confirm?'',
      u ''proceed?'']"

definition detect_human_input_prompt :: "(ustr \<Rightarrow> ustr) \<Rightarrow> ustr \<Rightarrow> bool" where
  "detect_human_input_prompt lower pane_output =
     (if pane_output = [] then False
      else
        let recent = last_n 3000 pane_output;
            lines = split_lines (strip recent);
            last_line = strip (last lines);
            has_numbered_options = (contains recent (u ''1.'') \<and> contains recent (u ''2.''));
            has_prompt = list_ex (\<lambda>line. strip line = [10095] \<or> ends_with (strip line) [10095])
                           (last_n 10 lines)
        in if has_numbered_options \<and> has_prompt then True
           else if (last_line = [10095] \<or> ends_with last_line [10095])
                   \<and> \<not> list_ex (\<lambda>spin. contains (last_n 200 pane_output) spin)
                          [[10251], [10265], [10297], [10296]]
           then True
           else if has_numbered_options then True
           else list_ex (\<lambda>p. contains (lower recent) (lower p)) explicit_prompts)"

section \<open>claw\_town\_dashboard.py: the orchestrator nudge of a tick\<close>

text \<open>
  The fields of the dashboard object that the orchestrator nudge reads and writes. The
  outbox holds the queued messages by source and priority, the event log the types of
  the events logged; message and summary texts are not modelled, nor are failures of
  the file system.
\<close>

record 'f supervisor =
  sv_last_activity_time :: 'f
  sv_last_nudge_time :: 'f
  sv_nudge_interval :: 'f
  sv_nudge_count :: int
  sv_max_nudges :: int
  sv_restart_count :: int
  sv_max_restarts :: int
  sv_outbox :: "(string \<times> int) list"
  sv_event_log :: "string list"

text \<open>\<open>[a for a in agents if a["status"] == "needs_input"]\<close>; a missing key raises.\<close>

fun needs_input_agents :: "dict list \<Rightarrow> py_error + dict list" where
  "needs_input_agents [] = Inr []"
| "needs_input_agents (a # as) =
     (case map_of a ''status'' of
        None \<Rightarrow> Inl KeyError
      | Some v \<Rightarrow>
          (case needs_input_agents as of
             Inl e \<Rightarrow> Inl e
           | Inr rest \<Rightarrow> Inr (if v = JStr ''needs_input'' then a # rest else rest)))"

text \<open>
  The method \<open>ClawTownDashboard.should_nudge(self, agents, tasks)\<close>; \<open>now1\<close> and
  \<open>now2\<close> are its two readings of the clock. It has no parameter for the orchestrator
  status and reads none from the object.
\<close>

definition dashboard_should_nudge ::
  "('f \<Rightarrow> 'f \<Rightarrow> 'f) \<Rightarrow> ('f \<Rightarrow> 'f \<Rightarrow> bool) \<Rightarrow> 'f \<Rightarrow> 'f \<Rightarrow> dict list \<Rightarrow> dict list
     \<Rightarrow> 'f supervisor \<Rightarrow> (py_error + bool) \<times> 'f supervisor" where
  "dashboard_should_nudge fsub flt now1 now2 agents all_tasks sv0 =
     (let idle_time = fsub now1 (sv_last_activity_time sv0);
          cooldown_elapsed = flt (sv_nudge_interval sv0) (fsub now2 (sv_last_nudge_time sv0));
          sv = (if flt idle_time (sv_nudge_interval sv0) \<and> sv_nudge_count sv0 > 0
                then sv0\<lparr>sv_nudge_count := 0\<rparr> else sv0)
      in if flt idle_time (sv_nudge_interval sv) then (Inr False, sv)
         else if \<not> cooldown_elapsed then (Inr False, sv)
         else (case needs_input_agents agents of
                 Inl e \<Rightarrow> (Inl e, sv)
               | Inr needs_input \<Rightarrow>
                   (case ready_tasks all_tasks all_tasks of
                      Inl e \<Rightarrow> (Inl e, sv)
                    | Inr ready \<Rightarrow> (Inr (needs_input \<noteq> [] \<or> ready \<noteq> []), sv))))"

text \<open>
  \<open>nudge_orchestrator\<close>: the message is queued with source \<open>nudge\<close> and priority 1,
  the nudge time and count are updated and, when the event log module is available,
  the event \<open>nudge_orch\<close> is logged. \<open>now\<close> is the clock read for the nudge time.
\<close>

definition nudge_orchestrator ::
  "bool \<Rightarrow> 'f \<Rightarrow> dict list \<Rightarrow> dict list \<Rightarrow> 'f supervisor
     \<Rightarrow> (py_error + bool) \<times> 'f supervisor" where
  "nudge_orchestrator event_log_available now agents all_tasks sv =
     (case needs_input_agents agents of
        Inl e \<Rightarrow> (Inl e, sv)
      | Inr needs_input \<Rightarrow>
          (case ready_tasks all_tasks all_tasks of
             Inl e \<Rightarrow> (Inl e, sv)
           | Inr ready \<Rightarrow>
               (Inr True,
                sv\<lparr>sv_outbox := sv_outbox sv @ [(''nudge'', 1)],
                   sv_last_nudge_time := now,
                   sv_nudge_count := sv_nudge_count sv + 1,
                   sv_event_log := (if event_log_available
                                    then sv_event_log sv @ [''nudge_orch'']
                                    else sv_event_log sv)\<rparr>)))"

text \<open>
  Steps 0 and 1 of \<open>nudge_all_stalled\<close>, the part of the tick that concerns the
  orchestrator: a restart when the nudges are exhausted, else the nudge when
  \<open>should_nudge\<close> says so. The later steps nudge worker agents and sub-orchestrators
  and log events of type \<open>nudge_agent\<close> only.
\<close>

datatype nudge_step = RestartOrchestrator | Raised py_error | NudgesSent nat

definition nudge_all_stalled_orchestrator ::
  "('f \<Rightarrow> 'f \<Rightarrow> 'f) \<Rightarrow> ('f \<Rightarrow> 'f \<Rightarrow> bool) \<Rightarrow> bool \<Rightarrow> 'f \<Rightarrow> 'f \<Rightarrow> 'f
     \<Rightarrow> dict list \<Rightarrow> dict list \<Rightarrow> 'f supervisor \<Rightarrow> nudge_step \<times> 'f supervisor" where
  "nudge_all_stalled_orchestrator fsub flt event_log_available now1 now2 now3 agents all_tasks sv =
     (if sv_nudge_count sv \<ge> sv_max_nudges sv \<and> sv_restart_count sv < sv_max_restarts sv
      then (RestartOrchestrator, sv)
      else (case dashboard_should_nudge fsub flt now1 now2 agents all_tasks sv of
              (Inl e, sv1) \<Rightarrow> (Raised e, sv1)
            | (Inr False, sv1) \<Rightarrow> (NudgesSent 0, sv1)
            | (Inr True, sv1) \<Rightarrow>
                (case nudge_orchestrator event_log_available now3 agents all_tasks sv1 of
                   (Inl e, sv2) \<Rightarrow> (Raised e, sv2)
                 | (Inr sent, sv2) \<Rightarrow> (NudgesSent (if sent then 1 else 0), sv2))))"

text \<open>
  The eighth boundary scenario of the spec: the orchestrator pane ends with two numbered
  options and the prompt glyph; the orchestrator has been idle for twenty minutes, was
  never nudged, and one agent needs input.
\<close>

definition prompt_output :: ustr where
  "prompt_output = u ''1. Option A'' @ [10] @ u ''2. Option B'' @ [10] @ [10095]"

definition idle_supervisor :: "real supervisor" where
  "idle_supervisor =
     \<lparr>sv_last_activity_time = 800, sv_last_nudge_time = 0, sv_nudge_interval = 900,
      sv_nudge_count = 0, sv_max_nudges = 10, sv_restart_count = 0, sv_max_restarts = 3,
      sv_outbox = [], sv_event_log = []\<rparr>"

section \<open>claw\_town\_tasklib.py: the task store\<close>

text \<open>
  Command-line text is ASCII in this model: \<open>string\<close> holds the characters of a Python
  \<open>str\<close> whose code points are below 128, and the case maps and the digit test are
  those of ASCII. Printing to stdout and stderr is not modelled; a command returns how
  the process ends (\<open>Success\<close> for exit code 0, \<open>Exit code message\<close> for
  \<open>sys.exit(code)\<close> after the error message) together with the files it leaves.
\<close>

datatype outcome = Success | Exit nat string

record comment =
  comment_id :: nat
  comment_content :: string
  comment_prefix :: "string option"
  comment_created_at :: string

text \<open>
  A task file. The keys \<open>priority\<close> and \<open>completed_at\<close> are absent from a new file
  (\<open>None\<close>); \<open>assigned_to\<close>, \<open>stage\<close> and \<open>owner\<close> hold a string or \<open>null\<close>.
\<close>

record task =
  t_number :: string
  title :: string
  description :: string
  status :: string
  tags :: "string list"
  created_at :: string
  updated_at :: string
  blocking :: "string list"
  blocked_by :: "string list"
  assigned_to :: "string option"
  comments :: "comment list"
  stage :: "string option"
  owner :: "string option"
  priority :: "string option"
  completed_at :: "string option"

text \<open>
  The \<open>.tasks/\<close> directory: \<open>counter.json\<close> (absent, or \<open>{"next_id": n}\<close> as
  \<open>_next_id\<close> writes it) and the task files by T-number.
\<close>

record store =
  counter :: "int option"
  tasks :: "string \<rightharpoonup> task"

definition empty_store :: store where
  "empty_store = \<lparr>counter = None, tasks = Map.empty\<rparr>"

text \<open>\<open>_next_id\<close>: the id handed out and the directory with the counter advanced.\<close>

definition next_id :: "store \<Rightarrow> int \<times> store" where
  "next_id s =
     (let nid = (case counter s of Some n \<Rightarrow> n | None \<Rightarrow> 1)
      in (nid, s\<lparr>counter := Some (nid + 1)\<rparr>))"

text \<open>\<open>_format_t_number\<close>: \<open>f"T{num:03d}"\<close>, zero-padded to width 3, sign included.\<close>

fun dec_digits :: "nat \<Rightarrow> string" where
  "dec_digits n =
     (if n < 10 then [''0123456789'' ! n]
      else dec_digits (n div 10) @ [''0123456789'' ! (n mod 10)])"

declare dec_digits.simps [simp del]

definition zfill :: "nat \<Rightarrow> string \<Rightarrow> string" where
  "zfill w ds = replicate (w - length ds) (CHR ''0'') @ ds"

definition format_t_number :: "int \<Rightarrow> string" where
  "format_t_number num =
     ''T'' @ (if num < 0 then ''-'' @ zfill 2 (dec_digits (nat (- num)))
              else zfill 3 (dec_digits (nat num)))"

text \<open>\<open>_read_task\<close> and \<open>_write_task\<close>; the write stamps \<open>updated_at\<close>.\<close>

definition read_task :: "store \<Rightarrow> string \<Rightarrow> string + task" where
  "read_task s tn =
     (case tasks s tn of
        None \<Rightarrow> Inl (''Task '' @ tn @ '' not found'')
      | Some t \<Rightarrow> Inr t)"

definition write_task :: "string \<Rightarrow> task \<Rightarrow> string \<Rightarrow> store \<Rightarrow> store" where
  "write_task tn data now s = s\<lparr>tasks := (tasks s)(tn \<mapsto> data\<lparr>updated_at := now\<rparr>)\<rparr>"

text \<open>ASCII \<open>str.strip\<close>, \<open>str.upper\<close>, \<open>str.lower\<close>, \<open>str.replace\<close> of one character.\<close>

definition is_space_char :: "char \<Rightarrow> bool" where
  "is_space_char c = is_space (of_char c)"

definition strip_str :: "string \<Rightarrow> string" where
  "strip_str s = rev (dropWhile is_space_char (rev (dropWhile is_space_char s)))"

definition upper_char :: "char \<Rightarrow> char" where
  "upper_char c = (if CHR ''a'' \<le> c \<and> c \<le> CHR ''z'' then char_of (of_char c - (32::nat)) else c)"

definition lower_char :: "char \<Rightarrow> char" where
  "lower_char c = (if CHR ''A'' \<le> c \<and> c \<le> CHR ''Z'' then char_of (of_char c + (32::nat)) else c)"

definition replace_char :: "char \<Rightarrow> char \<Rightarrow> string \<Rightarrow> string" where
  "replace_char a b s = map (\<lambda>c. if c = a then b else c) s"

text \<open>
  \<open>int(text)\<close> in base 10 on ASCII text: the white space of C's \<open>isspace\<close> around
  (tab, newline, vertical tab, form feed, carriage return, space; not the separators
  U+001C to U+001F, which \<open>str.strip\<close> does remove), an optional sign, then digits
  with single underscores allowed between them. More than 4300 digits (underscores not
  counted, leading zeros counted) are refused, as the interpreter's default limit on
  integer strings has it. \<open>None\<close> is \<open>ValueError\<close>.
\<close>

definition is_c_space :: "char \<Rightarrow> bool" where
  "is_c_space c \<longleftrightarrow> (9 \<le> (of_char c :: nat) \<and> (of_char c :: nat) \<le> 13) \<or> c = CHR '' ''"

definition strip_c :: "string \<Rightarrow> string" where
  "strip_c s = rev (dropWhile is_c_space (rev (dropWhile is_c_space s)))"

definition max_str_digits :: nat where
  "max_str_digits = 4300"

definition is_digit :: "char \<Rightarrow> bool" where
  "is_digit c \<longleftrightarrow> CHR ''0'' \<le> c \<and> c \<le> CHR ''9''"

definition digit_val :: "char \<Rightarrow> nat" where
  "digit_val c = of_char c - 48"

fun parse_digits :: "string \<Rightarrow> nat \<Rightarrow> nat option" where
  "parse_digits [] acc = Some acc"
| "parse_digits (c # cs) acc =
     (if is_digit c then parse_digits cs (10 * acc + digit_val c)
      else if c = CHR ''_'' then
        (case cs of
           [] \<Rightarrow> None
         | d # ds \<Rightarrow> if is_digit d then parse_digits ds (10 * acc + digit_val d) else None)
      else None)"

definition parse_unsigned :: "string \<Rightarrow> nat option" where
  "parse_unsigned s =
     (if length (filter is_digit s) > max_str_digits then None
      else (case s of
              [] \<Rightarrow> None
            | c # cs \<Rightarrow> if is_digit c then parse_digits cs (digit_val c) else None))"

definition py_int :: "string \<Rightarrow> int option" where
  "py_int s =
     (case strip_c s of
        [] \<Rightarrow> None
      | c # cs \<Rightarrow>
          if c = CHR ''-'' then map_option (\<lambda>n. - int n) (parse_unsigned cs)
          else if c = CHR ''+'' then map_option int (parse_unsigned cs)
          else map_option int (parse_unsigned (c # cs)))"

text \<open>\<open>_parse_t_number\<close>: \<open>Inl\<close> is the message of the error it exits with.\<close>

definition parse_t_number :: "string \<Rightarrow> string + string" where
  "parse_t_number raw =
     (let cleaned = map upper_char (strip_str raw);
          cleaned = (if starts_with cleaned ''T'' then drop 1 cleaned else cleaned)
      in case py_int cleaned of
           None \<Rightarrow> Inl (''Invalid T-number: '' @ raw)
         | Some num \<Rightarrow> Inr (format_t_number num))"

text \<open>\<open>_normalize_status\<close> with its \<open>status_map\<close>.\<close>

definition status_map :: "(string \<times> string) list" where
  "status_map =
     [(''no_progress'', ''open''),
      (''planned'', ''open''),
      (''in_progress'', ''in_progress''),
      (''blocked'', ''blocked''),
      (''closed'', ''closed'')]"

definition normalize_status :: "string \<Rightarrow> string" where
  "normalize_status raw =
     (let normalized = replace_char (CHR '' '') (CHR ''_'')
                         (replace_char (CHR ''-'') (CHR ''_'') (map lower_char raw))
      in case map_of status_map normalized of
           Some v \<Rightarrow> v
         | None \<Rightarrow> normalized)"

text \<open>
  \<open>text.split(",")\<close> and the comprehension
  \<open>[t.strip() for t in tags.split(",") if t.strip()]\<close>.
\<close>

fun split_comma :: "string \<Rightarrow> string list" where
  "split_comma [] = [[]]"
| "split_comma (c # cs) =
     (if c = CHR '','' then [] # split_comma cs
      else (case split_comma cs of
              [] \<Rightarrow> [[c]]
            | w # ws \<Rightarrow> (c # w) # ws))"

definition parse_tags :: "string \<Rightarrow> string list" where
  "parse_tags s = filter (\<lambda>t. t \<noteq> []) (map strip_str (split_comma s))"

text \<open>An optional argument is truthy when it is given and not the empty string.\<close>

definition given :: "string option \<Rightarrow> bool" where
  "given a \<longleftrightarrow> (case a of None \<Rightarrow> False | Some v \<Rightarrow> v \<noteq> [])"

record create_args =
  arg_title :: string
  arg_description :: "string option"
  arg_tags :: "string option"
  arg_assigned_to :: "string option"
  arg_progress :: "string option"
  arg_stage :: "string option"
  arg_owner :: "string option"

text \<open>
  \<open>cmd_create\<close>. \<open>now\<close> is the clock read for \<open>created_at\<close>, \<open>wnow\<close> the one
  \<open>_write_task\<close> stamps.
\<close>

definition cmd_create :: "create_args \<Rightarrow> string \<Rightarrow> string \<Rightarrow> store \<Rightarrow> outcome \<times> store" where
  "cmd_create args now wnow s =
     (let (task_id, s1) = next_id s;
          tn = format_t_number task_id;
          tgs = (if given (arg_tags args) then parse_tags (the (arg_tags args)) else []);
          tgs = (if ''claw-town'' \<notin> set tgs then tgs @ [''claw-town''] else tgs);
          task_data = \<lparr>t_number = tn,
                       title = arg_title args,
                       description = (if given (arg_description args) then the (arg_description args)
                                      else ''No description provided''),
                       status = ''open'',
                       tags = tgs,
                       created_at = now,
                       updated_at = now,
                       blocking = [],
                       blocked_by = [],
                       assigned_to = arg_assigned_to args,
                       comments = [],
                       stage = arg_stage args,
                       owner = arg_owner args,
                       priority = None,
                       completed_at = None\<rparr>;
          task_data = (if given (arg_progress args)
                       then task_data\<lparr>status := normalize_status (the (arg_progress args))\<rparr>
                       else task_data)
      in (Success, write_task tn task_data wnow s1))"

record update_args =
  upd_status :: "string option"
  upd_title :: "string option"
  upd_description :: "string option"
  upd_priority :: "string option"
  upd_tags :: "string option"
  upd_stage :: "string option"
  upd_owner :: "string option"

text \<open>The loop of \<open>cmd_update\<close> that appends the tags not yet present.\<close>

fun add_tags :: "string list \<Rightarrow> string list \<Rightarrow> string list" where
  "add_tags existing [] = existing"
| "add_tags existing (tag # new_tags) =
     add_tags (if tag \<notin> set existing then existing @ [tag] else existing) new_tags"

text \<open>
  The field updates of \<open>cmd_update\<close>, in the order of the source, with the list
  \<open>updated_fields\<close>.
\<close>

definition apply_update :: "update_args \<Rightarrow> task \<Rightarrow> task \<times> string list" where
  "apply_update args t0 =
     (let (t, f) = (t0, []);
          (t, f) = (if given (upd_status args)
                    then (t\<lparr>status := normalize_status (the (upd_status args))\<rparr>, f @ [''status''])
                    else (t, f));
          (t, f) = (if given (upd_title args)
                    then (t\<lparr>title := the (upd_title args)\<rparr>, f @ [''title''])
                    else (t, f));
          (t, f) = (if given (upd_description args)
                    then (t\<lparr>description := the (upd_description args)\<rparr>, f @ [''description''])
                    else (t, f));
          (t, f) = (if given (upd_priority args)
                    then (t\<lparr>priority := upd_priority args\<rparr>, f @ [''priority''])
                    else (t, f));
          (t, f) = (if given (upd_tags args)
                    then (t\<lparr>tags := add_tags (tags t) (parse_tags (the (upd_tags args)))\<rparr>,
                          f @ [''tags''])
                    else (t, f));
          (t, f) = (if upd_stage args \<noteq> None
                    then (t\<lparr>stage := upd_stage args\<rparr>, f @ [''stage''])
                    else (t, f));
          (t, f) = (if upd_owner args \<noteq> None
                    then (t\<lparr>owner := (if upd_owner args \<noteq> Some ''none'' then upd_owner args
                                        else None)\<rparr>,
                          f @ [''owner''])
                    else (t, f))
      in (t, f))"

definition cmd_update :: "string \<Rightarrow> update_args \<Rightarrow> string \<Rightarrow> store \<Rightarrow> outcome \<times> store" where
  "cmd_update raw args wnow s =
     (case parse_t_number raw of
        Inl msg \<Rightarrow> (Exit 1 msg, s)
      | Inr tn \<Rightarrow>
          (case read_task s tn of
             Inl msg \<Rightarrow> (Exit 1 msg, s)
           | Inr task_data \<Rightarrow>
               (let (task_data, updated_fields) = apply_update args task_data
                in if updated_fields = []
                   then (Exit 1 (''No fields to update. Provide --status, --title, ''
                                 @ ''--description, --priority, --tags, --stage, or --owner.''), s)
                   else (Success, write_task tn task_data wnow s))))"

definition cmd_close :: "string \<Rightarrow> string \<Rightarrow> string \<Rightarrow> store \<Rightarrow> outcome \<times> store" where
  "cmd_close raw now wnow s =
     (case parse_t_number raw of
        Inl msg \<Rightarrow> (Exit 1 msg, s)
      | Inr tn \<Rightarrow>
          (case read_task s tn of
             Inl msg \<Rightarrow> (Exit 1 msg, s)
           | Inr task_data \<Rightarrow>
               (Success,
                write_task tn (task_data\<lparr>status := ''closed'', completed_at := Some now\<rparr>) wnow s)))"

text \<open>
  \<open>cmd_add_blocking\<close>: the blocker's file is read, extended and written (stamp
  \<open>wnow1\<close>) before the blocked task's file is read; the second write stamps \<open>wnow2\<close>.
\<close>

definition cmd_add_blocking ::
  "string \<Rightarrow> string \<Rightarrow> string \<Rightarrow> string \<Rightarrow> store \<Rightarrow> outcome \<times> store" where
  "cmd_add_blocking blocker blocked wnow1 wnow2 s =
     (case parse_t_number blocker of
        Inl msg \<Rightarrow> (Exit 1 msg, s)
      | Inr blocker_tn \<Rightarrow>
     (case parse_t_number blocked of
        Inl msg \<Rightarrow> (Exit 1 msg, s)
      | Inr blocked_tn \<Rightarrow>
     (case read_task s blocker_tn of
        Inl msg \<Rightarrow> (Exit 1 msg, s)
      | Inr blocker_data \<Rightarrow>
          (let blocking_list = blocking blocker_data;
               blocking_list = (if blocked_tn \<notin> set blocking_list
                                then blocking_list @ [blocked_tn] else blocking_list);
               s1 = write_task blocker_tn (blocker_data\<lparr>blocking := blocking_list\<rparr>) wnow1 s
           in case read_task s1 blocked_tn of
                Inl msg \<Rightarrow> (Exit 1 msg, s1)
              | Inr blocked_data \<Rightarrow>
                  (let blocked_by_list = blocked_by blocked_data;
                       blocked_by_list = (if blocker_tn \<notin> set blocked_by_list
                                          then blocked_by_list @ [blocker_tn]
                                          else blocked_by_list)
                   in (Success,
                       write_task blocked_tn (blocked_data\<lparr>blocked_by := blocked_by_list\<rparr>)
                         wnow2 s1))))))"

text \<open>One invocation of the command line, with the clock readings it makes.\<close>

datatype command =
    Create create_args string string
  | AddBlocking string string string string
  | Update string update_args string
  | Close string string string

fun run_command :: "command \<Rightarrow> store \<Rightarrow> outcome \<times> store" where
  "run_command (Create args now wnow) s = cmd_create args now wnow s"
| "run_command (AddBlocking blocker blocked wnow1 wnow2) s =
     cmd_add_blocking blocker blocked wnow1 wnow2 s"
| "run_command (Update raw args wnow) s = cmd_update raw args wnow s"
| "run_command (Close raw now wnow) s = cmd_close raw now wnow s"

text \<open>Running invocations one after the other; a failed one leaves what it wrote.\<close>

fun run_commands :: "command list \<Rightarrow> store \<Rightarrow> store" where
  "run_commands [] s = s"
| "run_commands (c # cs) s = run_commands cs (snd (run_command c s))"

text \<open>The link symmetry of the spec: over the task files present.\<close>

definition links_symmetric :: "store \<Rightarrow> bool" where
  "links_symmetric s \<longleftrightarrow>
     (\<forall>a b ta tb. tasks s a = Some ta \<and> tasks s b = Some tb
        \<longrightarrow> (b \<in> set (blocking ta) \<longleftrightarrow> a \<in> set (blocked_by tb)))"

section \<open>claw\_town\_roles.py: the pipeline\<close>

definition PIPELINE_STAGES :: "string list" where
  "PIPELINE_STAGES =
     [''pm'', ''tech-lead'', ''intern'', ''code-review'', ''perf-check'', ''qa-test'',
      ''design-audit'', ''done'']"

definition REJECT_ALLOWED :: "(string \<times> string list) list" where
  "REJECT_ALLOWED =
     [(''code-review'', [''intern'']),
      (''perf-check'', [''intern'']),
      (''qa-test'', [''intern'']),
      (''design-audit'', [''intern'']),
      (''intern'', [''pm'', ''tech-lead'']),
      (''tech-lead'', [''pm''])]"

text \<open>\<open>list.index\<close>: the first position of an item, \<open>None\<close> for \<open>ValueError\<close>.\<close>

fun index_of :: "'a list \<Rightarrow> 'a \<Rightarrow> nat option" where
  "index_of [] x = None"
| "index_of (y # ys) x = (if y = x then Some 0 else map_option Suc (index_of ys x))"

definition next_stage :: "string \<Rightarrow> string option" where
  "next_stage current =
     (case index_of PIPELINE_STAGES current of
        None \<Rightarrow> None
      | Some idx \<Rightarrow>
          if idx + 1 \<ge> length PIPELINE_STAGES then None
          else Some (PIPELINE_STAGES ! (idx + 1)))"

text \<open>How a stage or an owner that may be \<open>None\<close> prints inside an f-string.\<close>

definition show_opt :: "string option \<Rightarrow> string" where
  "show_opt v = (case v of None \<Rightarrow> ''None'' | Some x \<Rightarrow> x)"

definition cmd_release :: "string \<Rightarrow> string \<Rightarrow> store \<Rightarrow> outcome \<times> store" where
  "cmd_release raw wnow s =
     (case parse_t_number raw of
        Inl msg \<Rightarrow> (Exit 1 msg, s)
      | Inr tn \<Rightarrow>
          (case read_task s tn of
             Inl msg \<Rightarrow> (Exit 1 msg, s)
           | Inr task \<Rightarrow>
               (let current_stage = stage task;
                    current_owner = owner task
                in if current_owner = None
                   then (Exit 1 (''Task '' @ tn @ '' has no owner to release''), s)
                   else
                     let new_stage = (if given current_stage then next_stage (the current_stage)
                                      else None)
                     in if new_stage = None \<and> current_stage \<noteq> Some ''done''
                        then (Exit 1 (''Task '' @ tn @ '' is at unknown stage '' @ [CHR 0x27]
                                      @ show_opt current_stage @ [CHR 0x27] @ '', cannot advance''), s)
                        else
                          (Success,
                           write_task tn
                             (task\<lparr>owner := None,
                                   stage := Some (case new_stage of Some n \<Rightarrow> n | None \<Rightarrow> ''done''),
                                   status := (if new_stage = Some ''done'' \<or> new_stage = None
                                              then ''closed'' else ''open'')\<rparr>)
                             wnow s))))"

text \<open>
  \<open>cmd_reject\<close>. The task is written twice, first with the stage moved back (stamp
  \<open>wnow1\<close>), then with the comment appended (created at \<open>now\<close>, stamp \<open>wnow2\<close>).
\<close>

definition cmd_reject ::
  "string \<Rightarrow> string \<Rightarrow> string \<Rightarrow> string \<Rightarrow> string \<Rightarrow> string \<Rightarrow> store \<Rightarrow> outcome \<times> store" where
  "cmd_reject raw target_stage reason wnow1 now wnow2 s =
     (case parse_t_number raw of
        Inl msg \<Rightarrow> (Exit 1 msg, s)
      | Inr tn \<Rightarrow>
          if target_stage \<notin> set PIPELINE_STAGES
          then (Exit 1 (''Unknown stage '' @ [CHR 0x27] @ target_stage @ [CHR 0x27]), s)
          else
          (case read_task s tn of
             Inl msg \<Rightarrow> (Exit 1 msg, s)
           | Inr task \<Rightarrow>
               (let current_stage = stage task;
                    current_owner = owner task;
                    allowed_targets = (case current_stage of
                                         None \<Rightarrow> []
                                       | Some c \<Rightarrow> (case map_of REJECT_ALLOWED c of
                                                      None \<Rightarrow> []
                                                    | Some ts \<Rightarrow> ts))
                in if target_stage \<notin> set allowed_targets
                   then (Exit 1 (''Stage '' @ [CHR 0x27] @ show_opt current_stage @ [CHR 0x27]
                                 @ '' cannot reject to '' @ [CHR 0x27] @ target_stage @ [CHR 0x27]), s)
                   else
                     let current_idx = (case current_stage of
                                          None \<Rightarrow> - 1
                                        | Some c \<Rightarrow> (case index_of PIPELINE_STAGES c of
                                                       None \<Rightarrow> - 1
                                                     | Some i \<Rightarrow> int i));
                         target_idx = int (the (index_of PIPELINE_STAGES target_stage))
                     in if target_idx \<ge> current_idx
                        then (Exit 1 (''Cannot reject forward: '' @ [CHR 0x27] @ target_stage
                                      @ [CHR 0x27] @ '' is not before '' @ [CHR 0x27]
                                      @ show_opt current_stage @ [CHR 0x27]), s)
                        else
                          let task = task\<lparr>owner := None, stage := Some target_stage,
                                          status := ''open''\<rparr>;
                              s1 = write_task tn task wnow1 s;
                              task = task\<lparr>updated_at := wnow1\<rparr>;
                              comment_content =
                                ''Rejected from '' @ show_opt current_stage @ '' back to ''
                                @ target_stage @ '' (by ''
                                @ (if given current_owner then the current_owner else ''unknown'')
                                @ ''): '' @ reason;
                              cs = comments task;
                              new_comment = \<lparr>comment_id = length cs + 1,
                                             comment_content = comment_content,
                                             comment_prefix = Some ''REJECTED'',
                                             comment_created_at = now\<rparr>;
                              task = task\<lparr>comments := cs @ [new_comment]\<rparr>
                          in (Success, write_task tn task wnow2 s1))))"

text \<open>The reject allow-list in the words of the spec's glossary, as a set of edges.\<close>

definition reject_allow_list :: "(string \<times> string) set" where
  "reject_allow_list =
     {(''code-review'', ''intern''), (''perf-check'', ''intern''), (''qa-test'', ''intern''),
      (''design-audit'', ''intern''), (''intern'', ''pm''), (''intern'', ''tech-lead''),
      (''tech-lead'', ''pm'')}"

definition cmd_set_stage :: "string \<Rightarrow> string \<Rightarrow> string \<Rightarrow> store \<Rightarrow> outcome \<times> store" where
  "cmd_set_stage raw new_stage wnow s =
     (case parse_t_number raw of
        Inl msg \<Rightarrow> (Exit 1 msg, s)
      | Inr tn \<Rightarrow>
          if new_stage \<notin> set PIPELINE_STAGES
          then (Exit 1 (''Unknown stage '' @ [CHR 0x27] @ new_stage @ [CHR 0x27]), s)
          else
          (case read_task s tn of
             Inl msg \<Rightarrow> (Exit 1 msg, s)
           | Inr task \<Rightarrow>
               (Success, write_task tn (task\<lparr>stage := Some new_stage, owner := None\<rparr>) wnow s)))"

text \<open>
  A reject from the stage \<open>current\<close> to \<open>target\<close> is legal, in the words of the spec:
  the pair is in the allow-list and the target comes earlier in the pipeline order.
\<close>

definition reject_legal :: "string option \<Rightarrow> string \<Rightarrow> bool" where
  "reject_legal current target \<longleftrightarrow>
     (case current of
        None \<Rightarrow> False
      | Some c \<Rightarrow> (c, target) \<in> reject_allow_list
          \<and> (case (index_of PIPELINE_STAGES target, index_of PIPELINE_STAGES c) of
                (Some i, Some j) \<Rightarrow> i < j
              | _ \<Rightarrow> False))"

text \<open>Concrete command lines and directories used as examples below.\<close>

definition plain_args :: "string \<Rightarrow> create_args" where
  "plain_args ttl =
     \<lparr>arg_title = ttl, arg_description = None, arg_tags = None, arg_assigned_to = None,
      arg_progress = None, arg_stage = None, arg_owner = None\<rparr>"

definition store_one_task :: store where
  "store_one_task = snd (cmd_create (plain_args ''A'') ''t0'' ''t1'' empty_store)"

definition store_in_review :: store where
  "store_in_review = snd (cmd_set_stage ''T001'' ''code-review'' ''t2'' store_one_task)"

definition owner_args :: create_args where
  "owner_args = (plain_args ''A'')\<lparr>arg_owner := Some ''pm''\<rparr>"

definition store_owner_no_stage :: store where
  "store_owner_no_stage = snd (cmd_create owner_args ''t0'' ''t1'' empty_store)"

definition review_args :: create_args where
  "review_args = (plain_args ''A'')\<lparr>arg_stage := Some ''code-review'',
                                     arg_owner := Some ''code-reviewer''\<rparr>"

definition store_claimed_review :: store where
  "store_claimed_review = snd (cmd_create review_args ''t0'' ''t1'' empty_store)"




text \<open>
  A task is created, a link to a task that does not exist yet is requested, and the
  second task is created.
\<close>

definition link_asymmetry_commands :: "command list" where
  "link_asymmetry_commands =
     [Create (plain_args ''A'') ''t0'' ''t1'',
      AddBlocking ''T001'' ''T002'' ''t2'' ''t3'',
      Create (plain_args ''B'') ''t4'' ''t5'']"

section \<open>claw\_town\_tasks\_json.py: the task graph document\<close>

text \<open>
  The operations of a Python \<open>dict\<close> on an association list with distinct keys:
  \<open>k in d\<close>, \<open>d[k] = v\<close> (in place when the key is there, else appended),
  \<open>d.pop(k, None)\<close> and \<open>d.setdefault(k, v)\<close>.
\<close>

definition dict_has :: "dict \<Rightarrow> string \<Rightarrow> bool" where
  "dict_has d k \<longleftrightarrow> map_of d k \<noteq> None"

fun dict_set :: "dict \<Rightarrow> string \<Rightarrow> json \<Rightarrow> dict" where
  "dict_set [] k v = [(k, v)]"
| "dict_set ((k', v') # d) k v = (if k' = k then (k, v) # d else (k', v') # dict_set d k v)"

definition dict_pop :: "dict \<Rightarrow> string \<Rightarrow> dict" where
  "dict_pop d k = filter (\<lambda>kv. fst kv \<noteq> k) d"

definition setdefault :: "dict \<Rightarrow> string \<Rightarrow> json \<Rightarrow> dict" where
  "setdefault d k v = (if dict_has d k then d else d @ [(k, v)])"

text \<open>
  How a load ends when it does not return a document: with a Python exception, or on a
  document outside this model (\<open>Unmodelled\<close>: a task entry that is a list or a string,
  which \<open>dict(entry)\<close> may or may not convert, or a legacy task whose T-number is a
  number or a boolean, which becomes a key that is not a string).
\<close>

datatype load_error = Raises py_error | Unmodelled

text \<open>\<open>_migrate_task_entry\<close>, on the copy \<open>dict(entry)\<close> of a dict.\<close>

definition migrate_task_entry :: "dict \<Rightarrow> dict" where
  "migrate_task_entry entry =
     (let m = entry;
          m = (if dict_has m ''window'' \<and> \<not> dict_has m ''agent_window''
               then dict_set (dict_pop m ''window'') ''agent_window'' (dget m ''window'')
               else if dict_has m ''window'' \<and> dict_has m ''agent_window''
               then dict_pop m ''window''
               else m);
          m = (if dict_has m ''state''
               then (if dget m ''status'' = JNull \<and> \<not> dict_has m ''agent_state''
                     then dict_set (dict_pop m ''state'') ''status'' (dget m ''state'')
                     else dict_pop m ''state'')
               else m);
          m = (if dict_has m ''agent_state''
               then (if dget m ''status'' = JNull
                     then dict_set (dict_pop m ''agent_state'') ''status'' (dget m ''agent_state'')
                     else dict_pop m ''agent_state'')
               else m);
          m = dict_pop m ''agent'';
          m = setdefault m ''title'' JNull;
          m = setdefault m ''blocked_by'' (JArr []);
          m = setdefault m ''status'' (JStr ''pending'');
          m = setdefault m ''name'' JNull;
          m = setdefault m ''agent_window'' JNull;
          m = setdefault m ''created_by'' (JStr ''claw-town'');
          m = setdefault m ''last_synced'' JNull
      in m)"

text \<open>\<open>dict(entry)\<close> for a value read from JSON.\<close>

fun py_dict :: "json \<Rightarrow> load_error + dict" where
  "py_dict (JObj d) = Inr d"
| "py_dict (JArr xs) = Inl Unmodelled"
| "py_dict (JStr s) = Inl Unmodelled"
| "py_dict v = Inl (Raises TypeError)"

text \<open>
  The first loop of \<open>_migrate_data\<close>, over the items of \<open>known_tasks\<close>, building
  \<open>migrated_tasks\<close>: an entry under a key that starts with \<open>T\<close> is migrated; one
  under another key is re-keyed to its \<open>t_number\<close> or \<open>task_number\<close> when that is a
  string starting with \<open>T\<close>, and dropped otherwise.
\<close>

fun migrate_known :: "dict \<Rightarrow> dict \<Rightarrow> load_error + dict" where
  "migrate_known [] migrated = Inr migrated"
| "migrate_known ((key, entry) # rest) migrated =
     (if starts_with key ''T''
      then (case py_dict entry of
              Inl e \<Rightarrow> Inl e
            | Inr d \<Rightarrow> migrate_known rest (dict_set migrated key (JObj (migrate_task_entry d))))
      else (case entry of
              JObj d \<Rightarrow>
                (case py_or (dget d ''t_number'') (dget d ''task_number'') of
                   JStr tn \<Rightarrow>
                     if tn \<noteq> [] \<and> starts_with tn ''T''
                     then migrate_known rest (dict_set migrated tn (JObj (migrate_task_entry d)))
                     else migrate_known rest migrated
                 | _ \<Rightarrow> migrate_known rest migrated)
            | _ \<Rightarrow> Inl (Raises AttributeError)))"

text \<open>
  The second loop, over the legacy \<open>tasks\<close> list: the key is the \<open>t_number\<close> or
  \<open>task_number\<close> when truthy, else the \<open>id\<close> when it is a string starting with
  \<open>T\<close>; a task whose key is already migrated is skipped.
\<close>

fun migrate_legacy :: "json list \<Rightarrow> dict \<Rightarrow> load_error + dict" where
  "migrate_legacy [] migrated = Inr migrated"
| "migrate_legacy (task # rest) migrated =
     (case task of
        JObj d \<Rightarrow>
          (let t_num = py_or (dget d ''t_number'') (dget d ''task_number'');
               task_id = dget_default d ''id'' (JStr '''');
               tn = (if \<not> truthy t_num
                        \<and> (case task_id of JStr i \<Rightarrow> starts_with i ''T'' | _ \<Rightarrow> False)
                     then task_id else t_num)
           in if \<not> truthy tn then migrate_legacy rest migrated
              else (case tn of
                      JStr k \<Rightarrow>
                        if dict_has migrated k then migrate_legacy rest migrated
                        else migrate_legacy rest
                               (dict_set migrated k (JObj (migrate_task_entry d)))
                    | JArr xs \<Rightarrow> Inl (Raises TypeError)
                    | JObj kvs \<Rightarrow> Inl (Raises TypeError)
                    | _ \<Rightarrow> Inl Unmodelled))
      | _ \<Rightarrow> Inl (Raises AttributeError))"

definition top_level_defaults :: "dict \<Rightarrow> dict" where
  "top_level_defaults data =
     (let data = setdefault data ''project'' (JStr ''unknown'');
          data = setdefault data ''root_task'' JNull;
          data = setdefault data ''working_dir'' JNull;
          data = setdefault data ''gsd_url'' JNull;
          data = setdefault data ''gsd_project_id'' JNull;
          data = setdefault data ''last_dag_walk'' JNull;
          data = setdefault data ''last_gsd_poll'' JNull
      in data)"

text \<open>\<open>_migrate_data\<close>.\<close>

definition migrate_data :: "dict \<Rightarrow> load_error + dict" where
  "migrate_data data =
     (case dget_default data ''known_tasks'' (JObj []) of
        JObj known_tasks \<Rightarrow>
          (case migrate_known known_tasks [] of
             Inl e \<Rightarrow> Inl e
           | Inr migrated \<Rightarrow>
               (case (if dict_has data ''tasks''
                      then (case dget data ''tasks'' of
                              JArr ts \<Rightarrow>
                                (case migrate_legacy ts migrated of
                                   Inl e \<Rightarrow> Inl e
                                 | Inr migrated' \<Rightarrow> Inr (migrated', dict_pop data ''tasks''))
                            | _ \<Rightarrow> Inr (migrated, data))
                      else Inr (migrated, data)) of
                  Inl e \<Rightarrow> Inl e
                | Inr (migrated', data') \<Rightarrow>
                    Inr (top_level_defaults (dict_set data' ''known_tasks'' (JObj migrated')))))
      | _ \<Rightarrow> Inl (Raises AttributeError))"

definition empty_state :: "string \<Rightarrow> dict" where
  "empty_state project =
     [(''project'', JStr project), (''root_task'', JNull), (''working_dir'', JNull),
      (''gsd_url'', JNull), (''gsd_project_id'', JNull), (''known_tasks'', JObj []),
      (''last_dag_walk'', JNull), (''last_gsd_poll'', JNull)]"

text \<open>
  \<open>tasks.json\<close> is absent (\<open>None\<close>) or holds a JSON value. \<open>load\<close> migrates what it
  reads; \<open>save\<close> replaces the file by the document.
\<close>

definition load :: "string \<Rightarrow> json option \<Rightarrow> load_error + dict" where
  "load project file =
     (case file of
        None \<Rightarrow> Inr (empty_state project)
      | Some (JObj d) \<Rightarrow> migrate_data d
      | Some _ \<Rightarrow> Inl (Raises AttributeError))"

definition save :: "dict \<Rightarrow> json option" where
  "save data = Some (JObj data)"






text \<open>A legacy document whose only task carries the numeric id \<open>123\<close> as its T-number.\<close>

definition legacy_doc :: dict where
  "legacy_doc = [(''tasks'', JArr [JObj [(''t_number'', JStr ''123'')]])]"

text \<open>What the first load of that document returns, and what the load after a save does.\<close>

definition legacy_loaded :: dict where
  "legacy_loaded =
     [(''known_tasks'',
       JObj [(''123'',
              JObj [(''t_number'', JStr ''123''), (''title'', JNull), (''blocked_by'', JArr []),
                    (''status'', JStr ''pending''), (''name'', JNull), (''agent_window'', JNull),
                    (''created_by'', JStr ''claw-town''), (''last_synced'', JNull)])]),
      (''project'', JStr ''unknown''), (''root_task'', JNull), (''working_dir'', JNull),
      (''gsd_url'', JNull), (''gsd_project_id'', JNull), (''last_dag_walk'', JNull),
      (''last_gsd_poll'', JNull)]"

definition legacy_reloaded :: dict where
  "legacy_reloaded =
     [(''known_tasks'', JObj []),
      (''project'', JStr ''unknown''), (''root_task'', JNull), (''working_dir'', JNull),
      (''gsd_url'', JNull), (''gsd_project_id'', JNull), (''last_dag_walk'', JNull),
      (''last_gsd_poll'', JNull)]"



section \<open>Properties of dashboard\_data.py\<close>

lemma starts_with_append: "starts_with (p @ s) p"
  by (induction p) auto

lemma contains_append: "contains (a @ p @ b) p"
proof (induction a)
  case Nil
  show ?case
  proof (cases "p @ b")
    case Nil
    then show ?thesis by simp
  next
    case (Cons x xs)
    have "starts_with (p @ b) p" by (rule starts_with_append)
    with Cons show ?thesis by simp
  qed
next
  case (Cons x a)
  then show ?case by simp
qed

text \<open>
  The decision function of the data layer does test the status: when the orchestrator
  status given to it is \<open>waiting_for_human\<close>, \<open>should_nudge\<close> returns False whatever
  the idle time, the interval, the last nudge time, the cooldown, the nudge count, the
  clock, the agents and the tasks are, and whatever float arithmetic does.
\<close>

theorem should_nudge_waiting_for_human:
  "should_nudge fsub flt idle_time nudge_interval last_nudge_time nudge_cooldown nudge_count now
     agents task_list ''waiting_for_human'' = Inr False"
  by (simp add: should_nudge_def)

text \<open>
  Twenty idle minutes, the cooldown elapsed and an agent that needs input: with the
  status \<open>idle\<close> the decision is to nudge, with \<open>waiting_for_human\<close> it is not.
\<close>

theorem should_nudge_waiting_for_human_witness:
  "should_nudge (-) (<) (1200::real) 900 0 900 0 2000 [[(''status'', JStr ''needs_input'')]] []
     ''waiting_for_human'' = Inr False
   \<and> should_nudge (-) (<) (1200::real) 900 0 900 0 2000 [[(''status'', JStr ''needs_input'')]] []
     ''idle'' = Inr True"
proof -
  have "should_nudge (-) (<) (1200::real) 900 0 900 0 2000 [[(''status'', JStr ''needs_input'')]] []
     ''idle'' = Inr True"
    by (simp add: should_nudge_def dget_def)
  with should_nudge_waiting_for_human
    [of "(-)" "(<)" "1200::real" 900 0 900 0 2000 "[[(''status'', JStr ''needs_input'')]]" "[]"]
  show ?thesis by simp
qed

lemma prompt_detected: "detect_human_input_prompt lower prompt_output"
  by (simp add: detect_human_input_prompt_def prompt_output_def u_def last_n_def strip_def
        is_space_def ends_with_def Let_def)

lemma nudge_emitted:
  "nudge_all_stalled_orchestrator (-) (<) True 2000 2000 2000
      [[(''status'', JStr ''needs_input'')]] [] idle_supervisor
   = (NudgesSent 1,
      idle_supervisor\<lparr>sv_outbox := [(''nudge'', 1)], sv_last_nudge_time := 2000,
        sv_nudge_count := 1, sv_event_log := [''nudge_orch'']\<rparr>)"
  by (simp add: nudge_all_stalled_orchestrator_def dashboard_should_nudge_def
        nudge_orchestrator_def idle_supervisor_def Let_def)

text \<open>
  C7. The claim is that no \<open>nudge_orch\<close> event is emitted in a tick in which the
  orchestrator waits for a human. The tick does not call the data layer's
  \<open>should_nudge\<close>: \<open>nudge_all_stalled\<close> calls the dashboard's own method, which makes
  no such test. On the pane output of the spec's scenario (a prompt for human input is
  detected), idle since second 800 at second 2000 with a nudge interval of 900 seconds
  and one agent needing input, the tick queues the nudge and logs \<open>nudge_orch\<close>. The
  times are whole seconds, on which float subtraction and comparison are exact.
\<close>

theorem nudge_despite_human_prompt:
  "detect_human_input_prompt ascii_lower prompt_output
   \<and> sv_event_log (snd (nudge_all_stalled_orchestrator (-) (<) True 2000 2000 2000
         [[(''status'', JStr ''needs_input'')]] [] idle_supervisor)) = [''nudge_orch'']"
  by (simp add: prompt_detected nudge_emitted)

text \<open>
  C6. Whenever the lower-cased last 800 characters of the pane output contain one of the
  completion signals (\<open>task_complete\<close>, \<open>task complete\<close>, \<open>taskcomplete\<close>),
  \<open>detect_agent_status\<close> returns \<open>("completed", "completed")\<close>, whatever else the
  output holds. The only fact used about \<open>str.lower\<close> is that it maps the empty string
  to itself.
\<close>

theorem detect_agent_status_completed:
  assumes "lower [] = []"
    and "signal \<in> set completion_signals"
    and "contains (lower (last_n 800 pane_output)) signal"
  shows "detect_agent_status lower pane_output = (''completed'', u ''completed'')"
proof -
  have ne: "signal \<noteq> []"
    using assms(2) by (auto simp: completion_signals_def u_def)
  have "pane_output \<noteq> []"
  proof
    assume "pane_output = []"
    with assms(1,3) have "contains [] signal" by (simp add: last_n_def)
    with ne show False by simp
  qed
  moreover have "list_ex (\<lambda>s. contains (lower (last_n 800 pane_output)) s) completion_signals"
    using assms(2,3) by (auto simp: list_ex_iff)
  ultimately show ?thesis
    by (simp add: detect_agent_status_def Let_def)
qed

text \<open>
  The literal \<open>Task complete.\<close> after a question, numbered options, a polling word and
  a busy indicator: the completion rule wins over all of them.
\<close>

theorem detect_agent_status_completed_witness:
  "ascii_lower [] = []
   \<and> u ''task complete'' \<in> set completion_signals
   \<and> contains (ascii_lower (last_n 800
        (u ''Which option? 1. sleeping 2. esc to interrupt Task complete.'')))
        (u ''task complete'')
   \<and> detect_agent_status ascii_lower
        (u ''Which option? 1. sleeping 2. esc to interrupt Task complete.'')
      = (''completed'', u ''completed'')"
proof -
  have h1: "ascii_lower [] = []"
    by (simp add: ascii_lower_def)
  have h2: "u ''task complete'' \<in> set completion_signals"
    by (simp add: completion_signals_def)
  have h3: "contains (ascii_lower (last_n 800
        (u ''Which option? 1. sleeping 2. esc to interrupt Task complete.'')))
        (u ''task complete'')"
    by (simp add: u_def ascii_lower_def last_n_def)
  from detect_agent_status_completed [OF h1 h2 h3] h1 h2 h3 show ?thesis
    by simp
qed

section \<open>Properties of claw\_town\_tasklib.py\<close>

lemma format_t_number_1: "format_t_number 1 = ''T001''"
  by (simp add: format_t_number_def zfill_def dec_digits.simps numeral_2_eq_2)

lemma format_t_number_2: "format_t_number 2 = ''T002''"
  by (simp add: format_t_number_def zfill_def dec_digits.simps numeral_2_eq_2)

lemma strip_T00:
  assumes "\<not> is_space_char d"
  shows "strip_str [CHR ''T'', CHR ''0'', CHR ''0'', d] = [CHR ''T'', CHR ''0'', CHR ''0'', d]"
  using assms by (simp add: strip_str_def is_space_char_def is_space_def)

lemma py_int_001: "py_int ''001'' = Some 1" "py_int ''002'' = Some 2"
  by (simp_all add: py_int_def strip_c_def is_c_space_def parse_unsigned_def max_str_digits_def
        is_digit_def digit_val_def)

lemma parse_T001: "parse_t_number ''T001'' = Inr ''T001''"
  by (simp add: parse_t_number_def strip_T00 is_space_char_def is_space_def upper_char_def
        Let_def py_int_001 format_t_number_1)

lemma parse_T002: "parse_t_number ''T002'' = Inr ''T002''"
  by (simp add: parse_t_number_def strip_T00 is_space_char_def is_space_def upper_char_def
        Let_def py_int_001 format_t_number_2)

text \<open>
  C1. From an empty \<open>.tasks/\<close> directory, two \<open>create\<close> commands one after the other
  (whatever their arguments and the clock) both succeed and leave exactly the task files
  \<open>T001\<close> and \<open>T002\<close>, the first holding the first title and the second the second
  title, and \<open>counter.json\<close> holds \<open>next_id = 3\<close>.
\<close>

theorem create_twice_from_empty:
  "fst (cmd_create a now1 wnow1 empty_store) = Success
   \<and> fst (cmd_create b now2 wnow2 (snd (cmd_create a now1 wnow1 empty_store))) = Success
   \<and> dom (tasks (snd (cmd_create b now2 wnow2 (snd (cmd_create a now1 wnow1 empty_store)))))
       = {''T001'', ''T002''}
   \<and> map_option t_number (tasks (snd (cmd_create b now2 wnow2
         (snd (cmd_create a now1 wnow1 empty_store)))) ''T001'') = Some ''T001''
   \<and> map_option title (tasks (snd (cmd_create b now2 wnow2
         (snd (cmd_create a now1 wnow1 empty_store)))) ''T001'') = Some (arg_title a)
   \<and> map_option t_number (tasks (snd (cmd_create b now2 wnow2
         (snd (cmd_create a now1 wnow1 empty_store)))) ''T002'') = Some ''T002''
   \<and> map_option title (tasks (snd (cmd_create b now2 wnow2
         (snd (cmd_create a now1 wnow1 empty_store)))) ''T002'') = Some (arg_title b)
   \<and> counter (snd (cmd_create b now2 wnow2 (snd (cmd_create a now1 wnow1 empty_store))))
       = Some 3"
  by (auto simp: cmd_create_def next_id_def empty_store_def write_task_def Let_def
        format_t_number_1 format_t_number_2)

theorem create_twice_from_empty_witness:
  "dom (tasks (snd (cmd_create (plain_args ''B'') ''t2'' ''t3''
          (snd (cmd_create (plain_args ''A'') ''t0'' ''t1'' empty_store))))) = {''T001'', ''T002''}
   \<and> counter (snd (cmd_create (plain_args ''B'') ''t2'' ''t3''
          (snd (cmd_create (plain_args ''A'') ''t0'' ''t1'' empty_store)))) = Some 3"
  using create_twice_from_empty
    [of "plain_args ''A''" "''t0''" "''t1''" "plain_args ''B''" "''t2''" "''t3''"]
  by simp

section \<open>Properties of claw\_town\_roles.py\<close>


lemma index_stage:
  "index_of PIPELINE_STAGES ''pm'' = Some 0"
  "index_of PIPELINE_STAGES ''tech-lead'' = Some 1"
  "index_of PIPELINE_STAGES ''intern'' = Some 2"
  "index_of PIPELINE_STAGES ''code-review'' = Some 3"
  "index_of PIPELINE_STAGES ''perf-check'' = Some 4"
  "index_of PIPELINE_STAGES ''qa-test'' = Some 5"
  "index_of PIPELINE_STAGES ''design-audit'' = Some 6"
  "index_of PIPELINE_STAGES ''done'' = Some 7"
  by (simp_all add: PIPELINE_STAGES_def)

lemma allow_list_cases:
  "(c, target) \<in> reject_allow_list \<longleftrightarrow>
     c = ''code-review'' \<and> target = ''intern'' \<or>
     c = ''perf-check'' \<and> target = ''intern'' \<or>
     c = ''qa-test'' \<and> target = ''intern'' \<or>
     c = ''design-audit'' \<and> target = ''intern'' \<or>
     c = ''intern'' \<and> target = ''pm'' \<or>
     c = ''intern'' \<and> target = ''tech-lead'' \<or>
     c = ''tech-lead'' \<and> target = ''pm''"
  by (simp add: reject_allow_list_def)

lemma allow_list_backward:
  assumes "(c, target) \<in> reject_allow_list"
  shows "\<exists>i j. index_of PIPELINE_STAGES target = Some i \<and> index_of PIPELINE_STAGES c = Some j \<and> i < j"
  using assms unfolding allow_list_cases
  by (elim disjE conjE) (simp_all only: index_stage, simp_all)

lemma allow_list_target_valid:
  "(c, target) \<in> reject_allow_list \<Longrightarrow> target \<in> set PIPELINE_STAGES"
  unfolding allow_list_cases
  by (elim disjE conjE) (simp_all add: PIPELINE_STAGES_def)


lemma contains_suffix: "contains (a @ p) p"
  using contains_append [of a p "[]"] by simp

lemma allowed_targets_iff:
  "target \<in> set (case map_of REJECT_ALLOWED c of None \<Rightarrow> [] | Some ts \<Rightarrow> ts)
     \<longleftrightarrow> (c, target) \<in> reject_allow_list"
  by (auto simp: REJECT_ALLOWED_def reject_allow_list_def split: if_splits)

lemma reject_success:
  assumes p: "parse_t_number raw = Inr tn" and t: "tasks s tn = Some t"
    and legal: "reject_legal (stage t) target"
  shows "\<exists>c. cmd_reject raw target reason wnow1 now wnow2 s =
           (Success, s\<lparr>tasks := (tasks s)(tn \<mapsto>
              t\<lparr>owner := None, stage := Some target, status := ''open'', comments := comments t @ [c], updated_at := wnow2\<rparr>)\<rparr>)
         \<and> comment_prefix c = Some ''REJECTED'' \<and> contains (comment_content c) reason
         \<and> comment_id c = length (comments t) + 1"
proof -
  from legal obtain c where c: "stage t = Some c" and al: "(c, target) \<in> reject_allow_list"
    by (auto simp: reject_legal_def split: option.splits)
  from allow_list_backward [OF al] obtain i j where
    ij: "index_of PIPELINE_STAGES target = Some i" "index_of PIPELINE_STAGES c = Some j" "i < j"
    by blast
  have valid: "target \<in> set PIPELINE_STAGES" using al by (rule allow_list_target_valid)
  have allowed: "target \<in> set (case map_of REJECT_ALLOWED c of None \<Rightarrow> [] | Some ts \<Rightarrow> ts)"
    using al allowed_targets_iff by blast
  define cm where "cm = \<lparr>comment_id = length (comments t) + 1,
       comment_content = ''Rejected from '' @ show_opt (Some c) @ '' back to ''
                                @ target @ '' (by ''
                                @ (if given (owner t) then the (owner t) else ''unknown'')
                                @ ''): '' @ reason,
       comment_prefix = Some ''REJECTED'',
       comment_created_at = now\<rparr>"
  have "comment_content cm =
          (''Rejected from '' @ show_opt (Some c) @ '' back to '' @ target @ '' (by ''
             @ (if given (owner t) then the (owner t) else ''unknown'') @ ''): '') @ reason"
    by (simp add: cm_def)
  then have "contains (comment_content cm) reason"
    by (simp only: contains_suffix)
  moreover have "cmd_reject raw target reason wnow1 now wnow2 s =
           (Success, s\<lparr>tasks := (tasks s)(tn \<mapsto>
              t\<lparr>owner := None, stage := Some target, status := ''open'', comments := comments t @ [cm], updated_at := wnow2\<rparr>)\<rparr>)"
    unfolding cmd_reject_def cm_def using p t c ij valid allowed
    by (simp add: read_task_def write_task_def Let_def del: map_of_eq_Some_iff)
  ultimately show ?thesis by (auto simp: cm_def)
qed


lemma reject_failure:
  assumes p: "parse_t_number raw = Inr tn" and t: "tasks s tn = Some t"
    and illegal: "\<not> reject_legal (stage t) target"
  shows "\<exists>msg. cmd_reject raw target reason wnow1 now wnow2 s = (Exit 1 msg, s)"
proof (cases "target \<in> set PIPELINE_STAGES")
  case False
  with p show ?thesis by (simp add: cmd_reject_def)
next
  case valid: True
  show ?thesis
  proof (cases "stage t")
    case None
    with p t valid show ?thesis
      by (simp add: cmd_reject_def read_task_def Let_def)
  next
    case (Some c)
    show ?thesis
    proof (cases "(c, target) \<in> reject_allow_list")
      case False
      then have "target \<notin> set (case map_of REJECT_ALLOWED c of None \<Rightarrow> [] | Some ts \<Rightarrow> ts)"
        using allowed_targets_iff by blast
      with p t valid Some show ?thesis
        by (simp add: cmd_reject_def read_task_def Let_def del: map_of_eq_Some_iff)
    next
      case True
      from allow_list_backward [OF True] Some illegal True have False
        by (auto simp: reject_legal_def)
      then show ?thesis ..
    qed
  qed
qed

text \<open>
  C3. For a task that exists, with current stage \<open>c\<close>: \<open>reject\<close> to \<open>target\<close>
  succeeds exactly when \<open>(c, target)\<close> is in the reject allow-list and the target is
  earlier in the pipeline order. On success the task has the target stage, no owner,
  status \<open>open\<close>, and one more comment, with prefix \<open>REJECTED\<close> and a content that
  contains the reason. Otherwise the command exits with code 1 and changes no file.
\<close>

theorem reject_legality:
  assumes "parse_t_number raw = Inr tn" and "tasks s tn = Some t"
  shows "(fst (cmd_reject raw target reason wnow1 now wnow2 s) = Success
            \<longleftrightarrow> reject_legal (stage t) target)
       \<and> (reject_legal (stage t) target \<longrightarrow>
            (\<exists>t' c. tasks (snd (cmd_reject raw target reason wnow1 now wnow2 s)) tn = Some t'
               \<and> stage t' = Some target \<and> owner t' = None \<and> status t' = ''open''
               \<and> comments t' = comments t @ [c]
               \<and> comment_prefix c = Some ''REJECTED''
               \<and> contains (comment_content c) reason))
       \<and> (\<not> reject_legal (stage t) target \<longrightarrow>
            (\<exists>msg. cmd_reject raw target reason wnow1 now wnow2 s = (Exit 1 msg, s)))"
proof (cases "reject_legal (stage t) target")
  case True
  from reject_success [OF assms True, of reason wnow1 now wnow2] obtain c where
    "cmd_reject raw target reason wnow1 now wnow2 s =
           (Success, s\<lparr>tasks := (tasks s)(tn \<mapsto>
              t\<lparr>owner := None, stage := Some target, status := ''open'',
                 comments := comments t @ [c], updated_at := wnow2\<rparr>)\<rparr>)"
    "comment_prefix c = Some ''REJECTED''" "contains (comment_content c) reason"
    by blast
  with True show ?thesis by simp
next
  case False
  from reject_failure [OF assms False, of reason wnow1 now wnow2] obtain msg where
    "cmd_reject raw target reason wnow1 now wnow2 s = (Exit 1 msg, s)" by blast
  with False show ?thesis by simp
qed


lemma store_one_task_T001:
  "tasks store_one_task ''T001'' =
     Some \<lparr>t_number = ''T001'', title = ''A'', description = ''No description provided'',
           status = ''open'', tags = [''claw-town''], created_at = ''t0'', updated_at = ''t1'',
           blocking = [], blocked_by = [], assigned_to = None, comments = [], stage = None,
           owner = None, priority = None, completed_at = None\<rparr>"
  by (simp add: store_one_task_def cmd_create_def next_id_def empty_store_def write_task_def
        plain_args_def given_def format_t_number_1 Let_def)

lemma code_review_stage: "''code-review'' \<in> set PIPELINE_STAGES"
  by (simp add: PIPELINE_STAGES_def)

lemma store_in_review_T001:
  "tasks store_in_review ''T001'' =
     Some \<lparr>t_number = ''T001'', title = ''A'', description = ''No description provided'',
           status = ''open'', tags = [''claw-town''], created_at = ''t0'', updated_at = ''t2'',
           blocking = [], blocked_by = [], assigned_to = None, comments = [],
           stage = Some ''code-review'', owner = None, priority = None, completed_at = None\<rparr>"
  by (simp add: store_in_review_def cmd_set_stage_def parse_T001 read_task_def write_task_def
        store_one_task_T001 code_review_stage)

lemma legal_review_intern: "reject_legal (Some ''code-review'') ''intern''"
  by (simp add: reject_legal_def allow_list_cases index_stage)

text \<open>
  The third boundary scenario of the spec: a task is created, set to \<open>code-review\<close>
  and rejected to \<open>intern\<close> with the reason \<open>tests missing\<close>.
\<close>

theorem reject_legality_witness:
  "parse_t_number ''T001'' = Inr ''T001''
   \<and> map_option stage (tasks store_in_review ''T001'') = Some (Some ''code-review'')
   \<and> reject_legal (Some ''code-review'') ''intern''
   \<and> fst (cmd_reject ''T001'' ''intern'' ''tests missing'' ''t3'' ''t4'' ''t5'' store_in_review)
       = Success
   \<and> (\<exists>t' c. tasks (snd (cmd_reject ''T001'' ''intern'' ''tests missing'' ''t3'' ''t4'' ''t5''
                   store_in_review)) ''T001'' = Some t'
         \<and> stage t' = Some ''intern'' \<and> owner t' = None \<and> status t' = ''open''
         \<and> comments t' = [c] \<and> comment_prefix c = Some ''REJECTED''
         \<and> contains (comment_content c) ''tests missing'')"
  using reject_legality [OF parse_T001 store_in_review_T001,
          of "''intern''" "''tests missing''" "''t3''" "''t4''" "''t5''"]
    parse_T001 store_in_review_T001 legal_review_intern
  by simp

lemma index_of_mem: "index_of xs x = Some i \<Longrightarrow> x \<in> set xs"
  by (induction xs arbitrary: i) (auto split: if_splits)

lemma index_of_None: "index_of xs x = None \<longleftrightarrow> x \<notin> set xs"
  by (induction xs) auto

lemma stage_nonempty: "c \<in> set PIPELINE_STAGES \<Longrightarrow> c \<noteq> []"
  by (auto simp: PIPELINE_STAGES_def)

lemma given_Some: "given (Some c) \<longleftrightarrow> c \<noteq> []"
  by (simp add: given_def)

lemma next_stage_index:
  assumes "index_of PIPELINE_STAGES c = Some i" and "i + 1 < length PIPELINE_STAGES"
  shows "next_stage c = Some (PIPELINE_STAGES ! (i + 1))"
  using assms by (simp add: next_stage_def)

lemma next_stage_done: "next_stage ''done'' = None"
  by (simp add: next_stage_def index_stage PIPELINE_STAGES_def)

lemma next_stage_unknown: "c \<notin> set PIPELINE_STAGES \<Longrightarrow> next_stage c = None"
  using index_of_None [of PIPELINE_STAGES c] by (simp add: next_stage_def)

lemma read_task_Some: "tasks s tn = Some t \<Longrightarrow> read_task s tn = Inr t"
  by (simp add: read_task_def)

lemma release_no_owner:
  assumes "parse_t_number raw = Inr tn" and "tasks s tn = Some t" and "owner t = None"
  shows "cmd_release raw wnow s = (Exit 1 (''Task '' @ tn @ '' has no owner to release''), s)"
  using assms by (simp add: cmd_release_def read_task_def Let_def)

lemma release_advance_core:
  assumes p: "parse_t_number raw = Inr tn" and rd: "read_task s tn = Inr t"
    and o: "owner t = Some ow" and c: "stage t = Some c" and ne: "c \<noteq> []"
    and ns: "next_stage c = Some n"
  shows "cmd_release raw wnow s =
          (Success, write_task tn
             (t\<lparr>owner := None, stage := Some n,
                status := (if n = ''done'' then ''closed'' else ''open'')\<rparr>) wnow s)"
  unfolding cmd_release_def
  by (simp add: p rd o c ne ns Let_def given_Some)

lemma release_done_core:
  assumes p: "parse_t_number raw = Inr tn" and rd: "read_task s tn = Inr t"
    and o: "owner t = Some ow" and c: "stage t = Some ''done''"
  shows "cmd_release raw wnow s =
          (Success, write_task tn
             (t\<lparr>owner := None, stage := Some ''done'', status := ''closed''\<rparr>) wnow s)"
  unfolding cmd_release_def
  by (simp add: p rd o c next_stage_done Let_def given_Some)

lemma release_unknown_core:
  assumes p: "parse_t_number raw = Inr tn" and rd: "read_task s tn = Inr t"
    and o: "owner t = Some ow"
    and c: "stage t = None \<or> (\<exists>c. stage t = Some c \<and> c \<noteq> ''done'' \<and> next_stage c = None)"
  shows "\<exists>msg. cmd_release raw wnow s = (Exit 1 msg, s)"
  using c
proof
  assume "stage t = None"
  then show ?thesis
    unfolding cmd_release_def by (simp add: p rd o Let_def given_def)
next
  assume "\<exists>c. stage t = Some c \<and> c \<noteq> ''done'' \<and> next_stage c = None"
  then obtain c where c: "stage t = Some c" "c \<noteq> ''done''" "next_stage c = None" by blast
  show ?thesis
    unfolding cmd_release_def by (simp add: p rd o c Let_def)
qed

lemma done_stage: "''done'' \<in> set PIPELINE_STAGES"
  by (simp add: PIPELINE_STAGES_def)

text \<open>
  C4, as amended. For a task that exists: \<open>release\<close> on a task with no owner fails.
  With an owner set and the stage at position \<open>i\<close> of the pipeline order, not the last
  one, \<open>release\<close> clears the owner and moves the stage to position \<open>i + 1\<close>, one step
  forward in the order; the status becomes \<open>closed\<close> when that stage is \<open>done\<close> and
  \<open>open\<close> otherwise. With an owner set at the stage \<open>done\<close> it clears the owner, keeps
  the stage and closes the task. With an owner set and a stage that is missing or not a
  pipeline stage it exits with code 1 and changes no file.
\<close>

theorem release_step:
  assumes p: "parse_t_number raw = Inr tn" and t: "tasks s tn = Some t"
  shows "(owner t = None \<longrightarrow> (\<exists>msg. cmd_release raw wnow s = (Exit 1 msg, s)))
       \<and> (\<forall>c i. owner t \<noteq> None \<and> stage t = Some c \<and> index_of PIPELINE_STAGES c = Some i
                 \<and> i + 1 < length PIPELINE_STAGES \<longrightarrow>
             cmd_release raw wnow s =
               (Success, write_task tn
                  (t\<lparr>owner := None, stage := Some (PIPELINE_STAGES ! (i + 1)),
                     status := (if PIPELINE_STAGES ! (i + 1) = ''done'' then ''closed''
                                else ''open'')\<rparr>) wnow s))
       \<and> (owner t \<noteq> None \<and> stage t = Some ''done'' \<longrightarrow>
             cmd_release raw wnow s =
               (Success, write_task tn
                  (t\<lparr>owner := None, stage := Some ''done'', status := ''closed''\<rparr>) wnow s))
       \<and> (owner t \<noteq> None \<and> (\<forall>c. stage t = Some c \<longrightarrow> c \<notin> set PIPELINE_STAGES) \<longrightarrow>
             (\<exists>msg. cmd_release raw wnow s = (Exit 1 msg, s)))"
proof (intro conjI allI impI)
  assume "owner t = None"
  from release_no_owner [OF p t this] show "\<exists>msg. cmd_release raw wnow s = (Exit 1 msg, s)"
    by blast
next
  fix c i
  assume a: "owner t \<noteq> None \<and> stage t = Some c \<and> index_of PIPELINE_STAGES c = Some i
             \<and> i + 1 < length PIPELINE_STAGES"
  then obtain ow where o: "owner t = Some ow" by blast
  from a have c: "stage t = Some c" and i: "index_of PIPELINE_STAGES c = Some i"
    and lt: "i + 1 < length PIPELINE_STAGES" by blast+
  have ne: "c \<noteq> []" by (rule stage_nonempty [OF index_of_mem [OF i]])
  show "cmd_release raw wnow s =
          (Success, write_task tn
             (t\<lparr>owner := None, stage := Some (PIPELINE_STAGES ! (i + 1)),
                status := (if PIPELINE_STAGES ! (i + 1) = ''done'' then ''closed''
                           else ''open'')\<rparr>) wnow s)"
    by (rule release_advance_core [OF p read_task_Some [OF t] o c ne next_stage_index [OF i lt]])
next
  assume a: "owner t \<noteq> None \<and> stage t = Some ''done''"
  then obtain ow where o: "owner t = Some ow" by blast
  from a have c: "stage t = Some ''done''" by blast
  show "cmd_release raw wnow s =
          (Success, write_task tn
             (t\<lparr>owner := None, stage := Some ''done'', status := ''closed''\<rparr>) wnow s)"
    by (rule release_done_core [OF p read_task_Some [OF t] o c])
next
  assume a: "owner t \<noteq> None \<and> (\<forall>c. stage t = Some c \<longrightarrow> c \<notin> set PIPELINE_STAGES)"
  then obtain ow where o: "owner t = Some ow" by blast
  have "stage t = None \<or> (\<exists>c. stage t = Some c \<and> c \<noteq> ''done'' \<and> next_stage c = None)"
  proof (cases "stage t")
    case None
    then show ?thesis by simp
  next
    case (Some c)
    with a have nin: "c \<notin> set PIPELINE_STAGES" by blast
    with done_stage have "c \<noteq> ''done''" by blast
    with Some next_stage_unknown [OF nin] show ?thesis by simp
  qed
  from release_unknown_core [OF p read_task_Some [OF t] o this]
  show "\<exists>msg. cmd_release raw wnow s = (Exit 1 msg, s)" .
qed

lemma store_owner_no_stage_T001:
  "tasks store_owner_no_stage ''T001'' =
     Some \<lparr>t_number = ''T001'', title = ''A'', description = ''No description provided'',
           status = ''open'', tags = [''claw-town''], created_at = ''t0'', updated_at = ''t1'',
           blocking = [], blocked_by = [], assigned_to = None, comments = [], stage = None,
           owner = Some ''pm'', priority = None, completed_at = None\<rparr>"
  by (simp add: store_owner_no_stage_def owner_args_def cmd_create_def next_id_def
        empty_store_def write_task_def plain_args_def given_def format_t_number_1 Let_def)

lemma store_claimed_review_T001:
  "tasks store_claimed_review ''T001'' =
     Some \<lparr>t_number = ''T001'', title = ''A'', description = ''No description provided'',
           status = ''open'', tags = [''claw-town''], created_at = ''t0'', updated_at = ''t1'',
           blocking = [], blocked_by = [], assigned_to = None, comments = [],
           stage = Some ''code-review'', owner = Some ''code-reviewer'', priority = None,
           completed_at = None\<rparr>"
  by (simp add: store_claimed_review_def review_args_def cmd_create_def next_id_def
        empty_store_def write_task_def plain_args_def given_def format_t_number_1 Let_def)

text \<open>
  A task created with an owner and no stage (\<open>create --title A --owner pm\<close>): the
  owner is set, yet \<open>release\<close> does not advance it; it reports an unknown stage.
\<close>

theorem release_without_stage_counterexample:
  "fst (cmd_create owner_args ''t0'' ''t1'' empty_store) = Success
   \<and> map_option owner (tasks store_owner_no_stage ''T001'') = Some (Some ''pm'')
   \<and> map_option stage (tasks store_owner_no_stage ''T001'') = Some None
   \<and> cmd_release ''T001'' ''t2'' store_owner_no_stage =
       (Exit 1 (''Task T001 is at unknown stage '' @ [CHR 0x27] @ ''None'' @ [CHR 0x27]
                @ '', cannot advance''), store_owner_no_stage)"
  by (simp add: store_owner_no_stage_T001 cmd_release_def parse_T001 read_task_def Let_def
        given_def show_opt_def cmd_create_def next_id_def)

lemma stage_after_review: "PIPELINE_STAGES ! 4 = ''perf-check''"
  by (simp add: PIPELINE_STAGES_def)

text \<open>A task owned at \<open>code-review\<close> is released to \<open>perf-check\<close>.\<close>

theorem release_step_witness:
  "parse_t_number ''T001'' = Inr ''T001''
   \<and> map_option owner (tasks store_claimed_review ''T001'') = Some (Some ''code-reviewer'')
   \<and> map_option stage (tasks store_claimed_review ''T001'') = Some (Some ''code-review'')
   \<and> index_of PIPELINE_STAGES ''code-review'' = Some 3
   \<and> fst (cmd_release ''T001'' ''t2'' store_claimed_review) = Success
   \<and> map_option stage (tasks (snd (cmd_release ''T001'' ''t2'' store_claimed_review)) ''T001'')
       = Some (Some ''perf-check'')
   \<and> map_option owner (tasks (snd (cmd_release ''T001'' ''t2'' store_claimed_review)) ''T001'')
       = Some None
   \<and> map_option status (tasks (snd (cmd_release ''T001'' ''t2'' store_claimed_review)) ''T001'')
       = Some ''open''"
proof -
  have lt: "3 + 1 < length PIPELINE_STAGES" by (simp add: PIPELINE_STAGES_def)
  from release_step [OF parse_T001 store_claimed_review_T001, of "''t2''"]
  have "cmd_release ''T001'' ''t2'' store_claimed_review =
          (Success, write_task ''T001''
             ((the (tasks store_claimed_review ''T001''))
                \<lparr>owner := None, stage := Some (PIPELINE_STAGES ! (3 + 1)),
                  status := (if PIPELINE_STAGES ! (3 + 1) = ''done'' then ''closed''
                             else ''open'')\<rparr>) ''t2'' store_claimed_review)"
    using index_stage(4) lt by (simp add: store_claimed_review_T001)
  then show ?thesis
    by (simp add: parse_T001 store_claimed_review_T001 index_stage stage_after_review
          write_task_def)
qed

section \<open>Further properties of claw\_town\_tasklib.py\<close>










text \<open>
  C2. The link symmetry fails after \<open>create\<close>, \<open>add-blocking --blocker T001 --blocked
  T002\<close>, \<open>create\<close>: the second command writes \<open>T002\<close> into the blocking list of
  \<open>T001\<close> and then exits with code 1 because \<open>T002\<close> does not exist; the task
  \<open>T002\<close> created next has an empty \<open>blocked_by\<close> list.
\<close>

theorem add_blocking_partial_write:
  "fst (run_command (AddBlocking ''T001'' ''T002'' ''t2'' ''t3'')
          (run_commands [Create (plain_args ''A'') ''t0'' ''t1''] empty_store))
     = Exit 1 ''Task T002 not found''
   \<and> map_option blocking (tasks (run_commands link_asymmetry_commands empty_store) ''T001'')
       = Some [''T002'']
   \<and> map_option blocked_by (tasks (run_commands link_asymmetry_commands empty_store) ''T002'')
       = Some []"
  by (simp add: link_asymmetry_commands_def cmd_create_def cmd_add_blocking_def next_id_def
        parse_T001 parse_T002 format_t_number_1 format_t_number_2 empty_store_def read_task_def
        write_task_def plain_args_def given_def Let_def)

section \<open>Properties of claw\_town\_tasks\_json.py\<close>

lemma load_legacy: "load ''p'' (Some (JObj legacy_doc)) = Inr legacy_loaded"
  by code_simp

lemma reload_legacy: "load ''p'' (save legacy_loaded) = Inr legacy_reloaded"
  by code_simp

lemma legacy_differs: "legacy_reloaded \<noteq> legacy_loaded"
  by (simp add: legacy_reloaded_def legacy_loaded_def)

text \<open>
  C9. The fixed point of one load-save cycle fails on a legacy document: the loop over
  the legacy \<open>tasks\<close> list takes the \<open>t_number\<close> \<open>123\<close> as a key of
  \<open>known_tasks\<close> without the test for a leading \<open>T\<close> that the loop over
  \<open>known_tasks\<close> makes, so the first load returns a document with the entry
  \<open>123\<close> and the load after the save drops that entry.
\<close>

theorem load_save_load_differs:
  "load ''p'' (Some (JObj legacy_doc)) = Inr legacy_loaded
   \<and> load ''p'' (save legacy_loaded) = Inr legacy_reloaded
   \<and> dget legacy_loaded ''known_tasks'' \<noteq> JObj []
   \<and> dget legacy_reloaded ''known_tasks'' = JObj []"
  by (simp add: load_legacy reload_legacy) (simp add: legacy_loaded_def legacy_reloaded_def dget_def)






end
